theory Spec2Isabelle
  imports Main "HOL-Library.Word" "HOL-Library.Signed_Division"
begin

section \<open>The integer maths demo: data model\<close>

text \<open>
  The demo is built for the FreeRTOS Win32/MSVC port, where \<open>long\<close> has 32 bits,
  \<open>short\<close> has 16 bits and \<open>BaseType_t\<close> is \<open>long\<close>. Machine integers are words;
  a signed reading is taken with \<open>sint\<close> where the C operator is a signed one.
\<close>

type_synonym long = "32 word"
type_synonym short = "16 word"
type_synonym BaseType_t = "32 word"
type_synonym uint32_t = "32 word"

text \<open>
  Modelled from the spec: the kernel header that declares \<open>pdFALSE\<close> and \<open>pdTRUE\<close>
  is not part of the source file. The spec calls the two values of a liveness flag
  \<open>false\<close> and \<open>true\<close>; they are given here the values the FreeRTOS kernel gives
  them, \<open>((BaseType_t) 0)\<close> and \<open>((BaseType_t) 1)\<close>.
\<close>

definition pdFALSE :: BaseType_t where
  "pdFALSE = 0"

definition pdTRUE :: BaseType_t where
  "pdTRUE = 1"

text \<open>
  The signed division of two \<open>long\<close> values, as the C operator \<open>/\<close> computes it:
  the quotient is truncated towards zero (\<open>sdiv\<close> on the signed readings).
\<close>

definition long_div :: "long \<Rightarrow> long \<Rightarrow> long" where
  "long_div a b = word_of_int (sint a sdiv sint b)"

subsection \<open>The constants used in the calculation\<close>

definition intgCONST1 :: long where
  "intgCONST1 = 123"

definition intgCONST2 :: long where
  "intgCONST2 = 234567"

definition intgCONST3 :: long where
  "intgCONST3 = - 3"

definition intgCONST4 :: long where
  "intgCONST4 = 7"

definition intgEXPECTED_ANSWER :: long where
  "intgEXPECTED_ANSWER = long_div ((intgCONST1 + intgCONST2) * intgCONST3) intgCONST4"

definition intgNUMBER_OF_TASKS :: nat where
  "intgNUMBER_OF_TASKS = 1"

subsection \<open>Keys, console text\<close>

type_synonym c_int = "32 word"

definition mainSTATUS_KEY :: c_int where
  "mainSTATUS_KEY = 115"

definition mainRESTART_KEY :: c_int where
  "mainRESTART_KEY = 114"

definition CRLF :: string where
  "CRLF = [CHR 0x0D, CHR 0x0A]"

text \<open>The conversion \<open>%lu\<close> of \<open>printf\<close>: an unsigned value in decimal.\<close>

fun decimal :: "nat \<Rightarrow> string" where
  "decimal n =
     (if n < 10 then [''0123456789'' ! n]
      else decimal (n div 10) @ [''0123456789'' ! (n mod 10)])"

subsection \<open>Program state\<close>

text \<open>
  The locals of one \<open>vCompeteingIntMathTask\<close> that live across iterations: the error
  latch \<open>sError\<close> and the pointer \<open>pxTaskHasExecuted\<close>, which always points at
  an element of \<open>xTaskCheck\<close> and is kept as the index of that element. \<open>lValue\<close>
  is assigned afresh at the head of every iteration and is bound inside the iteration.
\<close>

record task_locals =
  sError :: short
  pxTaskHasExecuted :: nat

text \<open>
  The monitor task is either in its wait loop (\<open>Idle\<close>, lines 253 to 256) or past it
  and about to run the body of the check (\<open>Checking\<close>, lines 258 to 280).
\<close>

datatype monitor_state = Idle | Checking

text \<open>
  The file's static variables, the static local \<open>ulStatusCheckCount\<close> of the monitor
  task, the text written by \<open>printf\<close> (one entry per call, in order), the tasks
  created by \<open>vStartIntegerMathTasks\<close> and the place the monitor task is at.
\<close>

record system =
  xTaskCheck :: "BaseType_t list"
  xPerformStatusCheck :: BaseType_t
  ulStatusCheckCount :: uint32_t
  console :: "string list"
  tasks :: "task_locals list"
  monitor :: monitor_state

definition printf :: "string \<Rightarrow> system \<Rightarrow> system" where
  "printf text s = s\<lparr>console := console s @ [text]\<rparr>"

section \<open>The integer maths task\<close>

text \<open>
  The task exists to test the context switch: the partial value of the calculation is
  held across the point where the task yields or is preempted. What the switch did to
  that value is the one input of an iteration: it came back as it was, or it came back
  as some other value.
\<close>

datatype context_switch = Restored | Corrupted long

fun resume :: "context_switch \<Rightarrow> long \<Rightarrow> long" where
  "resume Restored v = v"
| "resume (Corrupted w) v = w"

text \<open>Lines 127 to 139. Arithmetic on a corrupted value wraps around.\<close>

definition calculation :: "context_switch \<Rightarrow> long" where
  "calculation c =
     (let lValue = intgCONST1;
          lValue = lValue + intgCONST2;
          lValue = resume c lValue;
          lValue = lValue * intgCONST3;
          lValue = long_div lValue intgCONST4
      in lValue)"

text \<open>
  One iteration of the task's loop (lines 123 to 165), on the task's locals and the
  array of check variables.
\<close>

definition vCompeteingIntMathTask_iteration ::
  "context_switch \<Rightarrow> task_locals \<Rightarrow> BaseType_t list \<Rightarrow> task_locals \<times> BaseType_t list" where
  "vCompeteingIntMathTask_iteration c t tc =
     (let lValue = calculation c;
          t = (if lValue \<noteq> intgEXPECTED_ANSWER then t\<lparr>sError := scast pdTRUE\<rparr> else t);
          tc = (if scast (sError t) = pdFALSE then tc[pxTaskHasExecuted t := pdTRUE] else tc)
      in (t, tc))"

text \<open>The locals of a task when it enters its loop (lines 114 and 120).\<close>

definition vCompeteingIntMathTask_entry :: "nat \<Rightarrow> task_locals" where
  "vCompeteingIntMathTask_entry pvParameters =
     \<lparr>sError = scast pdFALSE, pxTaskHasExecuted = pvParameters\<rparr>"

text \<open>
  \<open>vStartIntegerMathTasks\<close>: one task per check variable, each given the address of
  its own element.
\<close>

function vStartIntegerMathTasks_loop :: "nat \<Rightarrow> system \<Rightarrow> system" where
  "vStartIntegerMathTasks_loop sTask s =
     (if sTask < intgNUMBER_OF_TASKS
      then vStartIntegerMathTasks_loop (sTask + 1)
             (s\<lparr>tasks := tasks s @ [vCompeteingIntMathTask_entry sTask]\<rparr>)
      else s)"
  by pat_completeness auto
termination
  by (relation "measure (\<lambda>(sTask, s). intgNUMBER_OF_TASKS - sTask)") auto

definition vStartIntegerMathTasks :: "system \<Rightarrow> system" where
  "vStartIntegerMathTasks s = vStartIntegerMathTasks_loop 0 s"

section \<open>The check of the tasks\<close>

function xAreIntegerMathsTaskStillRunning_loop ::
  "nat \<Rightarrow> BaseType_t \<Rightarrow> BaseType_t list \<Rightarrow> BaseType_t \<times> BaseType_t list" where
  "xAreIntegerMathsTaskStillRunning_loop sTask xReturn tc =
     (if sTask < intgNUMBER_OF_TASKS
      then xAreIntegerMathsTaskStillRunning_loop (sTask + 1)
             (if tc ! sTask = pdFALSE then pdFALSE else xReturn)
             (tc[sTask := pdFALSE])
      else (xReturn, tc))"
  by pat_completeness auto
termination
  by (relation "measure (\<lambda>(sTask, xReturn, tc). intgNUMBER_OF_TASKS - sTask)") auto

definition xAreIntegerMathsTaskStillRunning :: "system \<Rightarrow> BaseType_t \<times> system" where
  "xAreIntegerMathsTaskStillRunning s =
     (let (xReturn, tc) = xAreIntegerMathsTaskStillRunning_loop 0 pdTRUE (xTaskCheck s)
      in (xReturn, s\<lparr>xTaskCheck := tc\<rparr>))"

section \<open>The monitor task, the timer and the keyboard\<close>

text \<open>Lines 258 to 280: the body of the monitor's loop after the wait.\<close>

definition prvMonitorTask_check :: "system \<Rightarrow> system" where
  "prvMonitorTask_check s =
     (let s = s\<lparr>xPerformStatusCheck := pdFALSE\<rparr>;
          (xTasksStatus, s) = xAreIntegerMathsTaskStillRunning s;
          s = s\<lparr>ulStatusCheckCount := ulStatusCheckCount s + 1\<rparr>
      in if xTasksStatus = pdTRUE
         then printf (''Message received from integer task - Status check #''
                      @ decimal (unat (ulStatusCheckCount s)) @ '': PASS'' @ CRLF) s
         else printf (''Message received from monitor timer - Status check #''
                      @ decimal (unat (ulStatusCheckCount s))
                      @ '': FAIL - Error detected!'' @ CRLF) s)"

text \<open>
  One step of the monitor task. In the wait loop it reads the flag: while the flag is
  \<open>pdFALSE\<close> it delays and stays there, otherwise it leaves the loop. Past the wait
  loop it runs the body and is back at the wait loop.
\<close>

definition prvMonitorTask_step :: "system \<Rightarrow> system" where
  "prvMonitorTask_step s =
     (case monitor s of
        Idle \<Rightarrow> if xPerformStatusCheck s = pdFALSE then s else s\<lparr>monitor := Checking\<rparr>
      | Checking \<Rightarrow> (prvMonitorTask_check s)\<lparr>monitor := Idle\<rparr>)"

definition prvMonitorTimerCallback :: "system \<Rightarrow> system" where
  "prvMonitorTimerCallback s = s\<lparr>xPerformStatusCheck := pdTRUE\<rparr>"

definition vIntegerKeyboardInterruptHandler :: "c_int \<Rightarrow> system \<Rightarrow> system" where
  "vIntegerKeyboardInterruptHandler xKeyPressed s =
     (if xKeyPressed = mainSTATUS_KEY
      then (printf (CRLF @ ''Manual status check requested...'' @ CRLF) s)
             \<lparr>xPerformStatusCheck := pdTRUE\<rparr>
      else if xKeyPressed = mainRESTART_KEY
      then printf (''Note: Task restart requires system reset in this demo.'' @ CRLF @ CRLF)
             (printf (CRLF @ ''Restarting integer math tasks...'' @ CRLF) s)
      else s)"

section \<open>The running system\<close>

text \<open>
  The static initialisers, and \<open>main_integer\<close> up to the start of the scheduler:
  the banner, the maths tasks, the monitor task at the head of its loop.
\<close>

definition static_init :: system where
  "static_init =
     \<lparr>xTaskCheck = replicate intgNUMBER_OF_TASKS pdFALSE,
      xPerformStatusCheck = pdFALSE,
      ulStatusCheckCount = 0,
      console = [],
      tasks = [],
      monitor = Idle\<rparr>"

definition main_integer :: system where
  "main_integer =
     vStartIntegerMathTasks
       (printf (CRLF @ ''Starting the integer math demo. Press ''
                @ [CHR 0x27, CHR ''s'', CHR 0x27] @ '' to display status, ''
                @ [CHR 0x27, CHR ''r'', CHR 0x27] @ '' to restart tasks.'' @ CRLF @ CRLF)
          static_init)"

text \<open>
  What the scheduler can let happen next: an iteration of the maths task with a given
  index, a step of the monitor task, the expiry of the timer, a key.
\<close>

datatype event =
  IntMathIteration nat context_switch
| MonitorStep
| TimerExpiry
| KeyPress c_int

fun step :: "event \<Rightarrow> system \<Rightarrow> system" where
  "step (IntMathIteration i c) s =
     (if i < length (tasks s)
      then let (t, tc) = vCompeteingIntMathTask_iteration c (tasks s ! i) (xTaskCheck s)
           in s\<lparr>tasks := (tasks s)[i := t], xTaskCheck := tc\<rparr>
      else s)"
| "step MonitorStep s = prvMonitorTask_step s"
| "step TimerExpiry s = prvMonitorTimerCallback s"
| "step (KeyPress k) s = vIntegerKeyboardInterruptHandler k s"

fun run :: "event list \<Rightarrow> system \<Rightarrow> system" where
  "run [] s = s"
| "run (e # es) s = run es (step e s)"

text \<open>
  An event of an uncorrupted run: no iteration of a maths task gets a corrupted value
  back from a context switch.
\<close>

fun uncorrupted :: "event \<Rightarrow> bool" where
  "uncorrupted (IntMathIteration i c) = (c = Restored)"
| "uncorrupted MonitorStep = True"
| "uncorrupted TimerExpiry = True"
| "uncorrupted (KeyPress k) = True"

section \<open>The expected answer\<close>

text \<open>
  C3, as the spec states it: with the operands 123, 234567, -3 and 7 and the formula
  \<open>((c1 + c2) * c3) / c4\<close>, divided with truncation towards zero, the expected
  answer is -100537. It is not: the sum is 234690, the product -704070, and the
  quotient of that by 7, truncated towards zero, is -100581.
\<close>

theorem expected_answer_not_100537:
  "sint intgEXPECTED_ANSWER \<noteq> - 100537"
  by (simp add: intgEXPECTED_ANSWER_def long_div_def intgCONST1_def intgCONST2_def
      intgCONST3_def intgCONST4_def signed_divide_int_def)

text \<open>
  C3, amended: with the operands 123, 234567, -3 and 7 and the formula
  \<open>((c1 + c2) * c3) / c4\<close>, evaluated left to right on \<open>long\<close> with the signed
  division truncating towards zero, \<open>intgEXPECTED_ANSWER\<close> is -100581.
\<close>

theorem expected_answer_value:
  "sint intgEXPECTED_ANSWER = - 100581"
  by (simp add: intgEXPECTED_ANSWER_def long_div_def intgCONST1_def intgCONST2_def
      intgCONST3_def intgCONST4_def signed_divide_int_def)

section \<open>The check of the tasks: read and clear\<close>

declare xAreIntegerMathsTaskStillRunning_loop.simps [simp del]
declare vStartIntegerMathTasks_loop.simps [simp del]
declare decimal.simps [simp del]

lemma ex_from_Suc_update:
  "(\<exists>j. Suc i \<le> j \<and> j < length tc \<and> tc[i := v] ! j = w)
     = (\<exists>j. Suc i \<le> j \<and> j < length tc \<and> tc ! j = w)"
proof -
  have "\<And>j. Suc i \<le> j \<Longrightarrow> tc[i := v] ! j = tc ! j" by simp
  then show ?thesis by metis
qed

lemma ex_from_split:
  "(\<exists>j. i \<le> j \<and> j < n \<and> P j) = ((i < n \<and> P i) \<or> (\<exists>j. Suc i \<le> j \<and> j < n \<and> P j))"
proof -
  have "\<And>j. (i \<le> j) = (j = i \<or> Suc i \<le> j)" by arith
  then show ?thesis by (simp only:) blast
qed

lemma cleared_prefix_grows:
  assumes "i < length tc"
  shows "take (Suc i) (tc[i := v]) @ replicate (length tc - Suc i) v
           = take i tc @ replicate (length tc - i) v"
proof -
  from assms have "length tc - i = Suc (length tc - Suc i)" by arith
  then show ?thesis using assms by (simp add: take_Suc_conv_app_nth)
qed

text \<open>
  The loop of \<open>xAreIntegerMathsTaskStillRunning\<close> from any index on: the result is
  \<open>pdFALSE\<close> when an element from that index on is \<open>pdFALSE\<close> and is otherwise what
  it was; the elements from that index on are cleared.
\<close>

lemma sweep_loop:
  "length tc = intgNUMBER_OF_TASKS \<Longrightarrow>
   xAreIntegerMathsTaskStillRunning_loop sTask xReturn tc =
     (if \<exists>j. sTask \<le> j \<and> j < length tc \<and> tc ! j = pdFALSE then pdFALSE else xReturn,
      take sTask tc @ replicate (length tc - sTask) pdFALSE)"
proof (induction sTask xReturn tc rule: xAreIntegerMathsTaskStillRunning_loop.induct)
  case (1 sTask xReturn tc)
  show ?case
  proof (cases "sTask < intgNUMBER_OF_TASKS")
    case False
    then have none: "(\<exists>j. sTask \<le> j \<and> j < length tc \<and> tc ! j = pdFALSE) = False"
      using "1.prems" by simp
    have same: "take sTask tc @ replicate (length tc - sTask) pdFALSE = tc"
      using False "1.prems" by simp
    show ?thesis
      unfolding none same
      using False by (subst xAreIntegerMathsTaskStillRunning_loop.simps) simp
  next
    case True
    let ?tc = "tc[sTask := pdFALSE]"
    have len: "length ?tc = intgNUMBER_OF_TASKS"
      using "1.prems" by simp
    have lt: "sTask < length tc"
      using True "1.prems" by simp
    have "xAreIntegerMathsTaskStillRunning_loop sTask xReturn tc =
          xAreIntegerMathsTaskStillRunning_loop (sTask + 1)
            (if tc ! sTask = pdFALSE then pdFALSE else xReturn) ?tc"
      using True by (subst xAreIntegerMathsTaskStillRunning_loop.simps) simp
    also have "\<dots> =
       (if \<exists>j. Suc sTask \<le> j \<and> j < length tc \<and> ?tc ! j = pdFALSE then pdFALSE
        else (if tc ! sTask = pdFALSE then pdFALSE else xReturn),
        take (Suc sTask) ?tc @ replicate (length tc - Suc sTask) pdFALSE)"
      using "1.IH" [OF True len] by simp
    also have "\<dots> =
       (if \<exists>j. sTask \<le> j \<and> j < length tc \<and> tc ! j = pdFALSE then pdFALSE else xReturn,
        take sTask tc @ replicate (length tc - sTask) pdFALSE)"
      unfolding ex_from_Suc_update cleared_prefix_grows [OF lt]
      by (subst (2) ex_from_split) (auto simp add: lt)
    finally show ?thesis .
  qed
qed

lemma sweep_result:
  assumes "length (xTaskCheck s) = intgNUMBER_OF_TASKS"
  shows "xAreIntegerMathsTaskStillRunning s =
     (if \<forall>v \<in> set (xTaskCheck s). v \<noteq> pdFALSE then pdTRUE else pdFALSE,
      s\<lparr>xTaskCheck := replicate intgNUMBER_OF_TASKS pdFALSE\<rparr>)"
proof -
  have "(\<exists>j. 0 \<le> j \<and> j < length (xTaskCheck s) \<and> xTaskCheck s ! j = pdFALSE)
        = (\<not> (\<forall>v \<in> set (xTaskCheck s). v \<noteq> pdFALSE))"
    by (simp add: in_set_conv_nth)
  then show ?thesis
    using assms by (auto simp add: xAreIntegerMathsTaskStillRunning_def sweep_loop)
qed

text \<open>The state \<open>main_integer\<close> hands to the scheduler.\<close>

lemma main_integer_fields:
  "xTaskCheck main_integer = [pdFALSE]"
  "xPerformStatusCheck main_integer = pdFALSE"
  "ulStatusCheckCount main_integer = 0"
  "tasks main_integer = [\<lparr>sError = 0, pxTaskHasExecuted = 0\<rparr>]"
  "monitor main_integer = Idle"
  by (simp_all add: main_integer_def vStartIntegerMathTasks_def static_init_def printf_def
      vStartIntegerMathTasks_loop.simps [of 0] vStartIntegerMathTasks_loop.simps [of "Suc 0"]
      intgNUMBER_OF_TASKS_def vCompeteingIntMathTask_entry_def pdFALSE_def)

text \<open>
  C1: for every state of the registry (the array holds one check variable per task),
  \<open>xAreIntegerMathsTaskStillRunning\<close> returns the conjunction of the check variables,
  \<open>pdTRUE\<close> exactly when none of them is \<open>pdFALSE\<close>, and whatever it returns it
  leaves every check variable \<open>pdFALSE\<close> and the rest of the state as it was.
\<close>

theorem sweep_conjunction_and_clear:
  assumes "length (xTaskCheck s) = intgNUMBER_OF_TASKS"
  shows "fst (xAreIntegerMathsTaskStillRunning s)
           = (if \<forall>v \<in> set (xTaskCheck s). v \<noteq> pdFALSE then pdTRUE else pdFALSE)
       \<and> snd (xAreIntegerMathsTaskStillRunning s)
           = s\<lparr>xTaskCheck := replicate intgNUMBER_OF_TASKS pdFALSE\<rparr>
       \<and> (\<forall>v \<in> set (xTaskCheck (snd (xAreIntegerMathsTaskStillRunning s))). v = pdFALSE)"
  using assms by (simp add: sweep_result)

theorem sweep_conjunction_and_clear_witness:
  "length (xTaskCheck (step (IntMathIteration 0 Restored) main_integer)) = intgNUMBER_OF_TASKS
   \<and> fst (xAreIntegerMathsTaskStillRunning (step (IntMathIteration 0 Restored) main_integer))
        = pdTRUE
   \<and> xTaskCheck (snd (xAreIntegerMathsTaskStillRunning
        (step (IntMathIteration 0 Restored) main_integer))) = [pdFALSE]
   \<and> length (xTaskCheck main_integer) = intgNUMBER_OF_TASKS
   \<and> fst (xAreIntegerMathsTaskStillRunning main_integer) = pdFALSE"
proof -
  have run: "xTaskCheck (step (IntMathIteration 0 Restored) main_integer) = [pdTRUE]"
    by (simp add: main_integer_fields vCompeteingIntMathTask_iteration_def calculation_def
        intgEXPECTED_ANSWER_def pdFALSE_def)
  have len: "length (xTaskCheck (step (IntMathIteration 0 Restored) main_integer))
      = intgNUMBER_OF_TASKS"
    unfolding run by (simp add: intgNUMBER_OF_TASKS_def)
  have len0: "length (xTaskCheck main_integer) = intgNUMBER_OF_TASKS"
    by (simp add: main_integer_fields intgNUMBER_OF_TASKS_def)
  show ?thesis
    using sweep_conjunction_and_clear [OF len] sweep_conjunction_and_clear [OF len0] len len0
    unfolding run
    by (simp add: main_integer_fields intgNUMBER_OF_TASKS_def pdFALSE_def pdTRUE_def)
qed

text \<open>
  C6: when every check variable is set (and there is at least one, as the array has
  one element per task), two calls of \<open>xAreIntegerMathsTaskStillRunning\<close> with nothing
  in between return \<open>pdTRUE\<close> and then \<open>pdFALSE\<close>.
\<close>

theorem two_sweeps_true_then_false:
  assumes "length (xTaskCheck s) = intgNUMBER_OF_TASKS"
    and "\<forall>v \<in> set (xTaskCheck s). v \<noteq> pdFALSE"
  shows "fst (xAreIntegerMathsTaskStillRunning s) = pdTRUE
       \<and> fst (xAreIntegerMathsTaskStillRunning (snd (xAreIntegerMathsTaskStillRunning s)))
           = pdFALSE"
proof -
  let ?s = "s\<lparr>xTaskCheck := replicate intgNUMBER_OF_TASKS pdFALSE\<rparr>"
  have first: "xAreIntegerMathsTaskStillRunning s = (pdTRUE, ?s)"
    using assms by (simp add: sweep_result)
  have "length (xTaskCheck ?s) = intgNUMBER_OF_TASKS" by simp
  then have "fst (xAreIntegerMathsTaskStillRunning ?s) = pdFALSE"
    by (simp add: sweep_result intgNUMBER_OF_TASKS_def)
  with first show ?thesis by simp
qed

theorem two_sweeps_true_then_false_witness:
  "length (xTaskCheck (step (IntMathIteration 0 Restored) main_integer)) = intgNUMBER_OF_TASKS
   \<and> xTaskCheck (step (IntMathIteration 0 Restored) main_integer) = [pdTRUE]
   \<and> pdTRUE \<noteq> pdFALSE
   \<and> fst (xAreIntegerMathsTaskStillRunning (step (IntMathIteration 0 Restored) main_integer))
        = pdTRUE
   \<and> fst (xAreIntegerMathsTaskStillRunning (snd (xAreIntegerMathsTaskStillRunning
        (step (IntMathIteration 0 Restored) main_integer)))) = pdFALSE"
proof -
  have run: "xTaskCheck (step (IntMathIteration 0 Restored) main_integer) = [pdTRUE]"
    by (simp add: main_integer_fields vCompeteingIntMathTask_iteration_def calculation_def
        intgEXPECTED_ANSWER_def pdFALSE_def)
  have len: "length (xTaskCheck (step (IntMathIteration 0 Restored) main_integer))
      = intgNUMBER_OF_TASKS"
    unfolding run by (simp add: intgNUMBER_OF_TASKS_def)
  have set: "\<forall>v \<in> set (xTaskCheck (step (IntMathIteration 0 Restored) main_integer)).
      v \<noteq> pdFALSE"
    unfolding run by (simp add: pdFALSE_def pdTRUE_def)
  show ?thesis
    using two_sweeps_true_then_false [OF len set] len run
    by (simp add: pdFALSE_def pdTRUE_def)
qed

section \<open>The monitor's check and the maths task, step by step\<close>

lemma sweep_ignores_flag:
  "xAreIntegerMathsTaskStillRunning (s\<lparr>xPerformStatusCheck := v\<rparr>)
     = (fst (xAreIntegerMathsTaskStillRunning s),
        (snd (xAreIntegerMathsTaskStillRunning s))\<lparr>xPerformStatusCheck := v\<rparr>)"
  by (simp add: xAreIntegerMathsTaskStillRunning_def split: prod.split)

lemma check_effect:
  "prvMonitorTask_check s =
     s\<lparr>xPerformStatusCheck := pdFALSE,
       xTaskCheck := xTaskCheck (snd (xAreIntegerMathsTaskStillRunning s)),
       ulStatusCheckCount := ulStatusCheckCount s + 1,
       console := console s @
         [if fst (xAreIntegerMathsTaskStillRunning s) = pdTRUE
          then ''Message received from integer task - Status check #''
               @ decimal (unat (ulStatusCheckCount s + 1)) @ '': PASS'' @ CRLF
          else ''Message received from monitor timer - Status check #''
               @ decimal (unat (ulStatusCheckCount s + 1))
               @ '': FAIL - Error detected!'' @ CRLF]\<rparr>"
  by (simp add: prvMonitorTask_check_def sweep_ignores_flag printf_def
      xAreIntegerMathsTaskStillRunning_def split: prod.split)

lemma pdTRUE_as_short_is_set: "(scast (scast pdTRUE :: short) :: BaseType_t) \<noteq> pdFALSE"
  by (simp add: pdTRUE_def pdFALSE_def)

lemma iteration_when_latched:
  assumes "(scast (sError t) :: BaseType_t) \<noteq> pdFALSE"
  shows "snd (vCompeteingIntMathTask_iteration c t tc) = tc"
    and "(scast (sError (fst (vCompeteingIntMathTask_iteration c t tc))) :: BaseType_t) \<noteq> pdFALSE"
  using assms pdTRUE_as_short_is_set
  by (simp_all add: vCompeteingIntMathTask_iteration_def Let_def)

lemma iteration_when_diverging:
  assumes "calculation c \<noteq> intgEXPECTED_ANSWER"
  shows "snd (vCompeteingIntMathTask_iteration c t tc) = tc"
    and "(scast (sError (fst (vCompeteingIntMathTask_iteration c t tc))) :: BaseType_t) \<noteq> pdFALSE"
  using assms pdTRUE_as_short_is_set
  by (simp_all add: vCompeteingIntMathTask_iteration_def Let_def)

lemma calculation_Restored: "calculation Restored = intgEXPECTED_ANSWER"
  by (simp add: calculation_def intgEXPECTED_ANSWER_def)

lemma iteration_when_sound:
  assumes "(scast (sError t) :: BaseType_t) = pdFALSE"
  shows "vCompeteingIntMathTask_iteration Restored t tc = (t, tc[pxTaskHasExecuted t := pdTRUE])"
  using assms by (simp add: vCompeteingIntMathTask_iteration_def calculation_Restored)

lemma monitor_step_tasks: "tasks (prvMonitorTask_step s) = tasks s"
  by (simp add: prvMonitorTask_step_def check_effect split: monitor_state.split)

lemma timer_tasks: "tasks (prvMonitorTimerCallback s) = tasks s"
  by (simp add: prvMonitorTimerCallback_def)

lemma key_tasks: "tasks (vIntegerKeyboardInterruptHandler k s) = tasks s"
  by (simp add: vIntegerKeyboardInterruptHandler_def printf_def)

lemma step_length_tasks: "length (tasks (step e s)) = length (tasks s)"
  by (cases e) (simp_all add: monitor_step_tasks timer_tasks key_tasks split: prod.split)

lemma step_keeps_latched:
  assumes "i < length (tasks s)" and "(scast (sError (tasks s ! i)) :: BaseType_t) \<noteq> pdFALSE"
  shows "(scast (sError (tasks (step e s) ! i)) :: BaseType_t) \<noteq> pdFALSE"
proof (cases e)
  case (IntMathIteration j c)
  show ?thesis
  proof (cases "j = i")
    case True
    have "tasks (step e s) ! i = fst (vCompeteingIntMathTask_iteration c (tasks s ! i) (xTaskCheck s))"
      using assms(1) True IntMathIteration by (simp add: case_prod_beta)
    then show ?thesis using iteration_when_latched(2) [OF assms(2)] by simp
  next
    case False
    then have "tasks (step e s) ! i = tasks s ! i"
      using IntMathIteration by (simp add: case_prod_beta)
    then show ?thesis using assms(2) by simp
  qed
next
  case MonitorStep
  then show ?thesis using assms(2) by (simp add: monitor_step_tasks)
next
  case TimerExpiry
  then show ?thesis using assms(2) by (simp add: timer_tasks)
next
  case (KeyPress k)
  then show ?thesis using assms(2) by (simp add: key_tasks)
qed

lemma run_keeps_latched:
  "i < length (tasks s) \<Longrightarrow> (scast (sError (tasks s ! i)) :: BaseType_t) \<noteq> pdFALSE \<Longrightarrow>
   i < length (tasks (run es s)) \<and> (scast (sError (tasks (run es s) ! i)) :: BaseType_t) \<noteq> pdFALSE"
proof (induction es arbitrary: s)
  case Nil
  then show ?case by simp
next
  case (Cons e es)
  have "i < length (tasks (step e s))"
    using Cons.prems(1) by (simp only: step_length_tasks)
  moreover have "(scast (sError (tasks (step e s) ! i)) :: BaseType_t) \<noteq> pdFALSE"
    using Cons.prems by (rule step_keeps_latched)
  ultimately show ?case using Cons.IH by simp
qed

lemma latched_iteration_writes_nothing:
  assumes "i < length (tasks s)" and "(scast (sError (tasks s ! i)) :: BaseType_t) \<noteq> pdFALSE"
  shows "xTaskCheck (step (IntMathIteration i c) s) = xTaskCheck s"
proof -
  have "snd (vCompeteingIntMathTask_iteration c (tasks s ! i) (xTaskCheck s)) = xTaskCheck s"
    using assms(2) by (rule iteration_when_latched(1))
  then show ?thesis using assms(1) by (simp add: case_prod_beta)
qed

text \<open>
  C2: once the value an iteration of a maths task computes differs from the expected
  answer, that iteration and every later iteration of the task leave the array of check
  variables as they find it, whatever runs in between and whatever the later
  iterations compute (also the expected answer): \<open>sError\<close> stays set and the task
  never sets its check variable again.
\<close>

theorem failure_is_latched:
  assumes "i < length (tasks s)" and "calculation c \<noteq> intgEXPECTED_ANSWER"
  shows "xTaskCheck (step (IntMathIteration i c) s) = xTaskCheck s
       \<and> (scast (sError (tasks (run es (step (IntMathIteration i c) s)) ! i)) :: BaseType_t)
           \<noteq> pdFALSE
       \<and> xTaskCheck (step (IntMathIteration i c') (run es (step (IntMathIteration i c) s)))
           = xTaskCheck (run es (step (IntMathIteration i c) s))"
proof -
  let ?s1 = "step (IntMathIteration i c) s"
  have a: "snd (vCompeteingIntMathTask_iteration c (tasks s ! i) (xTaskCheck s)) = xTaskCheck s"
    using assms(2) by (rule iteration_when_diverging(1))
  have b: "(scast (sError (fst (vCompeteingIntMathTask_iteration c (tasks s ! i) (xTaskCheck s))))
      :: BaseType_t) \<noteq> pdFALSE"
    using assms(2) by (rule iteration_when_diverging(2))
  have first: "xTaskCheck ?s1 = xTaskCheck s"
    using a assms(1) by (simp add: case_prod_beta)
  have len: "i < length (tasks ?s1)"
    using assms(1) by (simp only: step_length_tasks)
  have "tasks ?s1 ! i = fst (vCompeteingIntMathTask_iteration c (tasks s ! i) (xTaskCheck s))"
    using assms(1) by (simp add: case_prod_beta)
  then have latched: "(scast (sError (tasks ?s1 ! i)) :: BaseType_t) \<noteq> pdFALSE"
    using b by simp
  note later = run_keeps_latched [OF len latched, of es]
  from later
  have "xTaskCheck (step (IntMathIteration i c') (run es ?s1)) = xTaskCheck (run es ?s1)"
    by (intro latched_iteration_writes_nothing) simp_all
  with first later show ?thesis by blast
qed

theorem failure_is_latched_witness:
  "0 < length (tasks main_integer)
   \<and> calculation (Corrupted 5) \<noteq> intgEXPECTED_ANSWER
   \<and> calculation Restored = intgEXPECTED_ANSWER
   \<and> xTaskCheck (step (IntMathIteration 0 (Corrupted 5)) main_integer) = xTaskCheck main_integer
   \<and> xTaskCheck (step (IntMathIteration 0 Restored)
         (run [TimerExpiry, MonitorStep, MonitorStep]
           (step (IntMathIteration 0 (Corrupted 5)) main_integer)))
       = xTaskCheck (run [TimerExpiry, MonitorStep, MonitorStep]
           (step (IntMathIteration 0 (Corrupted 5)) main_integer))"
proof -
  have len: "0 < length (tasks main_integer)"
    by (simp add: main_integer_fields)
  have div: "calculation (Corrupted 5) \<noteq> intgEXPECTED_ANSWER"
    by (simp add: calculation_def intgEXPECTED_ANSWER_def long_div_def intgCONST1_def
        intgCONST2_def intgCONST3_def intgCONST4_def signed_divide_int_def)
  show ?thesis
    using failure_is_latched [OF len div, of "[TimerExpiry, MonitorStep, MonitorStep]" Restored]
      len div calculation_Restored
    by blast
qed

lemma step_keeps_sound:
  assumes "\<forall>t \<in> set (tasks s). (scast (sError t) :: BaseType_t) = pdFALSE" and "uncorrupted e"
  shows "tasks (step e s) = tasks s"
proof (cases e)
  case (IntMathIteration i c)
  with assms(2) have c: "c = Restored" by simp
  show ?thesis
  proof (cases "i < length (tasks s)")
    case True
    then have "(scast (sError (tasks s ! i)) :: BaseType_t) = pdFALSE"
      using assms(1) by simp
    then show ?thesis
      using True IntMathIteration c by (simp add: iteration_when_sound)
  next
    case False
    then show ?thesis using IntMathIteration by simp
  qed
next
  case MonitorStep
  then show ?thesis by (simp add: monitor_step_tasks)
next
  case TimerExpiry
  then show ?thesis by (simp add: timer_tasks)
next
  case (KeyPress k)
  then show ?thesis by (simp add: key_tasks)
qed

lemma run_keeps_sound:
  "\<forall>t \<in> set (tasks s). (scast (sError t) :: BaseType_t) = pdFALSE \<Longrightarrow>
   \<forall>e \<in> set es. uncorrupted e \<Longrightarrow> tasks (run es s) = tasks s"
proof (induction es arbitrary: s)
  case Nil
  then show ?case by simp
next
  case (Cons e es)
  have same: "tasks (step e s) = tasks s"
    using Cons.prems by (intro step_keeps_sound) simp_all
  then have "\<forall>t \<in> set (tasks (step e s)). (scast (sError t) :: BaseType_t) = pdFALSE"
    using Cons.prems(1) by simp
  then have "tasks (run es (step e s)) = tasks (step e s)"
    using Cons.prems(2) by (intro Cons.IH) simp_all
  with same show ?case by simp
qed

text \<open>
  C10: in an uncorrupted run (every maths task enters its loop with \<open>sError\<close>
  \<open>pdFALSE\<close>, and no context switch corrupts a value) the calculation gives the
  expected answer, no task ever sets its error latch, and every iteration of a task
  writes \<open>pdTRUE\<close> into the check variable the task points at and changes nothing
  else.
\<close>

theorem sound_run_always_signals:
  assumes "\<forall>t \<in> set (tasks s). (scast (sError t) :: BaseType_t) = pdFALSE"
    and "\<forall>e \<in> set es. uncorrupted e"
    and "i < length (tasks s)"
  shows "calculation Restored = intgEXPECTED_ANSWER
       \<and> (\<forall>t \<in> set (tasks (run es s)). (scast (sError t) :: BaseType_t) = pdFALSE)
       \<and> step (IntMathIteration i Restored) (run es s)
           = (run es s)\<lparr>xTaskCheck :=
               (xTaskCheck (run es s))[pxTaskHasExecuted (tasks s ! i) := pdTRUE]\<rparr>"
proof -
  have same: "tasks (run es s) = tasks s"
    using assms(1,2) by (rule run_keeps_sound)
  have "(scast (sError (tasks s ! i)) :: BaseType_t) = pdFALSE"
    using assms(1,3) by simp
  then have "step (IntMathIteration i Restored) (run es s)
           = (run es s)\<lparr>xTaskCheck :=
               (xTaskCheck (run es s))[pxTaskHasExecuted (tasks s ! i) := pdTRUE]\<rparr>"
    using assms(3) same by (simp add: iteration_when_sound)
  then show ?thesis
    using same assms(1) calculation_Restored by simp
qed

theorem sound_run_always_signals_witness:
  "tasks main_integer = [\<lparr>sError = 0, pxTaskHasExecuted = 0\<rparr>]
   \<and> (scast (0 :: short) :: BaseType_t) = pdFALSE
   \<and> uncorrupted (IntMathIteration 0 Restored) \<and> uncorrupted TimerExpiry
   \<and> uncorrupted MonitorStep
   \<and> calculation Restored = intgEXPECTED_ANSWER
   \<and> xTaskCheck (run [IntMathIteration 0 Restored, TimerExpiry, MonitorStep, MonitorStep]
         main_integer) = [pdFALSE]
   \<and> xTaskCheck (step (IntMathIteration 0 Restored)
         (run [IntMathIteration 0 Restored, TimerExpiry, MonitorStep, MonitorStep] main_integer))
       = [pdTRUE]"
proof -
  let ?es = "[IntMathIteration 0 Restored, TimerExpiry, MonitorStep, MonitorStep]"
  have sound: "\<forall>t \<in> set (tasks main_integer). (scast (sError t) :: BaseType_t) = pdFALSE"
    by (simp add: main_integer_fields pdFALSE_def)
  have evs: "\<forall>e \<in> set ?es. uncorrupted e"
    by simp
  have len: "0 < length (tasks main_integer)"
    by (simp add: main_integer_fields)
  have cleared: "xTaskCheck (run ?es main_integer) = [pdFALSE]"
    by (simp add: main_integer_fields iteration_when_sound prvMonitorTimerCallback_def
        prvMonitorTask_step_def check_effect sweep_result intgNUMBER_OF_TASKS_def
        pdTRUE_def pdFALSE_def)
  have eq: "step (IntMathIteration 0 Restored) (run ?es main_integer)
      = (run ?es main_integer)\<lparr>xTaskCheck :=
          (xTaskCheck (run ?es main_integer))[pxTaskHasExecuted (tasks main_integer ! 0) := pdTRUE]\<rparr>"
    using sound_run_always_signals [OF sound evs len] by blast
  have "xTaskCheck (step (IntMathIteration 0 Restored) (run ?es main_integer))
      = (xTaskCheck (run ?es main_integer))[pxTaskHasExecuted (tasks main_integer ! 0) := pdTRUE]"
    by (subst eq) simp
  then have signalled:
    "xTaskCheck (step (IntMathIteration 0 Restored) (run ?es main_integer)) = [pdTRUE]"
    by (simp only: cleared main_integer_fields nth_Cons_0 task_locals.simps list_update_code)
  have entry: "tasks main_integer = [\<lparr>sError = 0, pxTaskHasExecuted = 0\<rparr>]"
    by (simp add: main_integer_fields)
  have unset: "(scast (0 :: short) :: BaseType_t) = pdFALSE"
    by (simp add: pdFALSE_def)
  have "uncorrupted (IntMathIteration 0 Restored)" "uncorrupted TimerExpiry"
    "uncorrupted MonitorStep"
    by simp_all
  with entry unset calculation_Restored cleared signalled show ?thesis
    by blast
qed

section \<open>The monitor task\<close>

lemma decimal_1: "decimal (Suc 0) = ''1''"
  by (simp add: decimal.simps [of "Suc 0"])

text \<open>
  C4: when the monitor task has left its wait loop, its next step clears
  \<open>xPerformStatusCheck\<close>, calls \<open>xAreIntegerMathsTaskStillRunning\<close> once, adds one to
  \<open>ulStatusCheckCount\<close> (a \<open>uint32_t\<close>), prints one line that carries the new count
  and PASS or FAIL as the call returned, changes nothing else, and is back in the wait
  loop.
\<close>

theorem checking_transition:
  assumes "monitor s = Checking"
  shows "prvMonitorTask_step s =
     s\<lparr>xPerformStatusCheck := pdFALSE,
       xTaskCheck := xTaskCheck (snd (xAreIntegerMathsTaskStillRunning s)),
       ulStatusCheckCount := ulStatusCheckCount s + 1,
       console := console s @
         [if fst (xAreIntegerMathsTaskStillRunning s) = pdTRUE
          then ''Message received from integer task - Status check #''
               @ decimal (unat (ulStatusCheckCount s + 1)) @ '': PASS'' @ CRLF
          else ''Message received from monitor timer - Status check #''
               @ decimal (unat (ulStatusCheckCount s + 1))
               @ '': FAIL - Error detected!'' @ CRLF],
       monitor := Idle\<rparr>"
  using assms by (simp add: prvMonitorTask_step_def check_effect)

theorem checking_transition_witness:
  "monitor (run [TimerExpiry, MonitorStep] main_integer) = Checking
   \<and> xPerformStatusCheck (prvMonitorTask_step (run [TimerExpiry, MonitorStep] main_integer))
       = pdFALSE
   \<and> xTaskCheck (prvMonitorTask_step (run [TimerExpiry, MonitorStep] main_integer)) = [pdFALSE]
   \<and> ulStatusCheckCount (prvMonitorTask_step (run [TimerExpiry, MonitorStep] main_integer)) = 1
   \<and> last (console (prvMonitorTask_step (run [TimerExpiry, MonitorStep] main_integer)))
       = ''Message received from monitor timer - Status check #1: FAIL - Error detected!'' @ CRLF
   \<and> monitor (prvMonitorTask_step (run [TimerExpiry, MonitorStep] main_integer)) = Idle"
proof -
  have chk: "monitor (run [TimerExpiry, MonitorStep] main_integer) = Checking"
    by (simp add: prvMonitorTimerCallback_def prvMonitorTask_step_def main_integer_fields
        pdTRUE_def pdFALSE_def)
  show ?thesis
    using checking_transition [OF chk] chk
    by (simp add: prvMonitorTimerCallback_def prvMonitorTask_step_def main_integer_fields
        sweep_result intgNUMBER_OF_TASKS_def decimal_1 pdTRUE_def pdFALSE_def)
qed

section \<open>The keyboard\<close>

lemma restart_is_not_status: "mainRESTART_KEY \<noteq> mainSTATUS_KEY"
  by (simp add: mainRESTART_KEY_def mainSTATUS_KEY_def)

text \<open>
  C7: on the restart key the handler prints its two lines of acknowledgement and
  changes nothing else: no check variable, not the flag that requests a check, not the
  count of checks, not the tasks, not the monitor.
\<close>

theorem restart_key_only_prints:
  "vIntegerKeyboardInterruptHandler mainRESTART_KEY s =
     s\<lparr>console := console s @
        [CRLF @ ''Restarting integer math tasks...'' @ CRLF,
         ''Note: Task restart requires system reset in this demo.'' @ CRLF @ CRLF]\<rparr>
   \<and> xTaskCheck (vIntegerKeyboardInterruptHandler mainRESTART_KEY s) = xTaskCheck s
   \<and> xPerformStatusCheck (vIntegerKeyboardInterruptHandler mainRESTART_KEY s)
       = xPerformStatusCheck s
   \<and> ulStatusCheckCount (vIntegerKeyboardInterruptHandler mainRESTART_KEY s)
       = ulStatusCheckCount s
   \<and> tasks (vIntegerKeyboardInterruptHandler mainRESTART_KEY s) = tasks s
   \<and> monitor (vIntegerKeyboardInterruptHandler mainRESTART_KEY s) = monitor s"
  by (simp add: vIntegerKeyboardInterruptHandler_def restart_is_not_status printf_def)

section \<open>Requests for a check\<close>

lemma sweep_reads_array_only:
  "fst (xAreIntegerMathsTaskStillRunning s)
     = fst (xAreIntegerMathsTaskStillRunning_loop 0 pdTRUE (xTaskCheck s))"
  "xTaskCheck (snd (xAreIntegerMathsTaskStillRunning s))
     = snd (xAreIntegerMathsTaskStillRunning_loop 0 pdTRUE (xTaskCheck s))"
  by (simp_all add: xAreIntegerMathsTaskStillRunning_def case_prod_beta)

lemma check_ignores_monitor:
  "(prvMonitorTask_check (s\<lparr>monitor := m\<rparr>))\<lparr>monitor := m'\<rparr>
     = (prvMonitorTask_check s)\<lparr>monitor := m'\<rparr>"
  by (simp add: check_effect sweep_reads_array_only)

lemma request_effect:
  assumes "r = TimerExpiry \<or> r = KeyPress mainSTATUS_KEY"
  shows "xPerformStatusCheck (step r s) = pdTRUE"
    and "monitor (step r s) = monitor s"
    and "ulStatusCheckCount (step r s) = ulStatusCheckCount s"
    and "xTaskCheck (step r s) = xTaskCheck s"
    and "step r (s\<lparr>monitor := m\<rparr>) = (step r s)\<lparr>monitor := m\<rparr>"
  using assms
  by (auto simp add: prvMonitorTimerCallback_def vIntegerKeyboardInterruptHandler_def printf_def)

lemma idle_monitor_is_quiet:
  "monitor s = Idle \<Longrightarrow> xPerformStatusCheck s = pdFALSE \<Longrightarrow>
   run (replicate n MonitorStep) s = s"
  by (induction n) (simp_all add: prvMonitorTask_step_def)

lemma check_then_idle:
  "monitor ((prvMonitorTask_check s)\<lparr>monitor := Idle\<rparr>) = Idle"
  "xPerformStatusCheck ((prvMonitorTask_check s)\<lparr>monitor := Idle\<rparr>) = pdFALSE"
  "ulStatusCheckCount ((prvMonitorTask_check s)\<lparr>monitor := Idle\<rparr>) = ulStatusCheckCount s + 1"
  "\<exists>line. console ((prvMonitorTask_check s)\<lparr>monitor := Idle\<rparr>) = console s @ [line]"
  by (simp_all add: check_effect)

lemma consume_when_checking:
  assumes "monitor s = Checking"
  shows "run (replicate (Suc n) MonitorStep) s = (prvMonitorTask_check s)\<lparr>monitor := Idle\<rparr>"
proof -
  have "step MonitorStep s = (prvMonitorTask_check s)\<lparr>monitor := Idle\<rparr>"
    using assms by (simp add: prvMonitorTask_step_def)
  then show ?thesis
    by (simp add: idle_monitor_is_quiet check_then_idle del: step.simps)
qed

lemma consume_when_idle:
  assumes "monitor s = Idle" and "xPerformStatusCheck s \<noteq> pdFALSE"
  shows "run (replicate (Suc (Suc n)) MonitorStep) s
           = (prvMonitorTask_check s)\<lparr>monitor := Idle\<rparr>"
proof -
  have "step MonitorStep s = s\<lparr>monitor := Checking\<rparr>"
    using assms by (simp add: prvMonitorTask_step_def)
  then have "run (replicate (Suc (Suc n)) MonitorStep) s
      = run (replicate (Suc n) MonitorStep) (s\<lparr>monitor := Checking\<rparr>)"
    by (simp del: step.simps)
  also have "\<dots> = (prvMonitorTask_check (s\<lparr>monitor := Checking\<rparr>))\<lparr>monitor := Idle\<rparr>"
    by (rule consume_when_checking) simp
  finally show ?thesis by (simp only: check_ignores_monitor)
qed

lemma consume:
  assumes "xPerformStatusCheck s \<noteq> pdFALSE"
  shows "run (replicate (Suc (Suc n)) MonitorStep) s
           = (prvMonitorTask_check s)\<lparr>monitor := Idle\<rparr>"
proof (cases "monitor s")
  case Idle
  then show ?thesis using assms by (rule consume_when_idle)
next
  case Checking
  then show ?thesis by (rule consume_when_checking)
qed

lemma set_is_not_clear: "pdTRUE \<noteq> pdFALSE"
  by (simp add: pdTRUE_def pdFALSE_def)

text \<open>
  C9: the wording at the head of a report line follows the result of the check and not
  what asked for the check. Requested by the timer or by the status key, the line the
  monitor prints is the one that starts with "Message received from integer task"
  when \<open>xAreIntegerMathsTaskStillRunning\<close> returned \<open>pdTRUE\<close>, and the one that
  starts with "Message received from monitor timer" otherwise.
\<close>

theorem report_wording_follows_result:
  "last (console (run [TimerExpiry, MonitorStep, MonitorStep] s))
         = (if fst (xAreIntegerMathsTaskStillRunning s) = pdTRUE
            then ''Message received from integer task - Status check #''
                 @ decimal (unat (ulStatusCheckCount s + 1)) @ '': PASS'' @ CRLF
            else ''Message received from monitor timer - Status check #''
                 @ decimal (unat (ulStatusCheckCount s + 1))
                 @ '': FAIL - Error detected!'' @ CRLF)
       \<and> last (console (run [KeyPress mainSTATUS_KEY, MonitorStep, MonitorStep] s))
         = (if fst (xAreIntegerMathsTaskStillRunning s) = pdTRUE
            then ''Message received from integer task - Status check #''
                 @ decimal (unat (ulStatusCheckCount s + 1)) @ '': PASS'' @ CRLF
            else ''Message received from monitor timer - Status check #''
                 @ decimal (unat (ulStatusCheckCount s + 1))
                 @ '': FAIL - Error detected!'' @ CRLF)"
proof -
  have run: "run [r, MonitorStep, MonitorStep] s
      = (prvMonitorTask_check (step r s))\<lparr>monitor := Idle\<rparr>"
    if "r = TimerExpiry \<or> r = KeyPress mainSTATUS_KEY" for r
  proof -
    have "run (replicate (Suc (Suc 0)) MonitorStep) (step r s)
        = (prvMonitorTask_check (step r s))\<lparr>monitor := Idle\<rparr>"
      using request_effect(1) [OF that] set_is_not_clear by (intro consume) simp
    then show ?thesis by (simp del: step.simps)
  qed
  have line: "last (console ((prvMonitorTask_check (step r s))\<lparr>monitor := Idle\<rparr>))
      = (if fst (xAreIntegerMathsTaskStillRunning s) = pdTRUE
            then ''Message received from integer task - Status check #''
                 @ decimal (unat (ulStatusCheckCount s + 1)) @ '': PASS'' @ CRLF
            else ''Message received from monitor timer - Status check #''
                 @ decimal (unat (ulStatusCheckCount s + 1))
                 @ '': FAIL - Error detected!'' @ CRLF)"
    if "r = TimerExpiry \<or> r = KeyPress mainSTATUS_KEY" for r
    using request_effect(3,4) [OF that]
    by (simp add: check_effect sweep_reads_array_only del: step.simps)
  show ?thesis
    using run [of TimerExpiry] run [of "KeyPress mainSTATUS_KEY"]
      line [of TimerExpiry] line [of "KeyPress mainSTATUS_KEY"]
    by (simp del: step.simps run.simps)
qed

text \<open>
  C5: two requests for a check (each from the timer or from the status key) that both
  set \<open>xPerformStatusCheck\<close> before the monitor clears it are served by one check:
  however long the monitor then runs, \<open>ulStatusCheckCount\<close> has grown by one, one
  report line has been printed, the flag is clear and the monitor is back in its wait
  loop. The same state is reached when the second request arrives after the monitor
  has seen the flag and before it has cleared it.
\<close>

theorem requests_conflate:
  assumes "r1 = TimerExpiry \<or> r1 = KeyPress mainSTATUS_KEY"
    and "r2 = TimerExpiry \<or> r2 = KeyPress mainSTATUS_KEY"
  shows "ulStatusCheckCount (run (r1 # r2 # replicate (Suc (Suc n)) MonitorStep) s)
           = ulStatusCheckCount s + 1
       \<and> (\<exists>line. console (run (r1 # r2 # replicate (Suc (Suc n)) MonitorStep) s)
           = console (run [r1, r2] s) @ [line])
       \<and> xPerformStatusCheck (run (r1 # r2 # replicate (Suc (Suc n)) MonitorStep) s) = pdFALSE
       \<and> monitor (run (r1 # r2 # replicate (Suc (Suc n)) MonitorStep) s) = Idle
       \<and> (monitor s = Idle \<longrightarrow>
            run (r1 # MonitorStep # r2 # replicate (Suc n) MonitorStep) s
              = run (r1 # r2 # replicate (Suc (Suc n)) MonitorStep) s)"
proof -
  let ?s2 = "run [r1, r2] s"
  have flag: "xPerformStatusCheck ?s2 \<noteq> pdFALSE"
    using request_effect(1) [OF assms(2)] set_is_not_clear by (simp del: step.simps)
  have count: "ulStatusCheckCount ?s2 = ulStatusCheckCount s"
    using request_effect(3) [OF assms(2)] request_effect(3) [OF assms(1)]
    by (simp del: step.simps)
  have "run (r1 # r2 # replicate (Suc (Suc n)) MonitorStep) s
      = run (replicate (Suc (Suc n)) MonitorStep) ?s2"
    by (simp del: step.simps)
  also have "\<dots> = (prvMonitorTask_check ?s2)\<lparr>monitor := Idle\<rparr>"
    using flag by (rule consume)
  finally have together:
    "run (r1 # r2 # replicate (Suc (Suc n)) MonitorStep) s
      = (prvMonitorTask_check ?s2)\<lparr>monitor := Idle\<rparr>" .
  have between: "run (r1 # MonitorStep # r2 # replicate (Suc n) MonitorStep) s
      = (prvMonitorTask_check ?s2)\<lparr>monitor := Idle\<rparr>" if idle: "monitor s = Idle"
  proof -
    have "monitor (step r1 s) = Idle" "xPerformStatusCheck (step r1 s) \<noteq> pdFALSE"
      using request_effect(1,2) [OF assms(1)] idle set_is_not_clear by simp_all
    then have "step MonitorStep (step r1 s) = (step r1 s)\<lparr>monitor := Checking\<rparr>"
      by (simp add: prvMonitorTask_step_def del: step.simps(1,3,4))
    then have "run (r1 # MonitorStep # r2 # replicate (Suc n) MonitorStep) s
        = run (replicate (Suc n) MonitorStep) (step r2 ((step r1 s)\<lparr>monitor := Checking\<rparr>))"
      by (simp del: step.simps)
    also have "\<dots> = run (replicate (Suc n) MonitorStep) (?s2\<lparr>monitor := Checking\<rparr>)"
      by (simp add: request_effect(5) [OF assms(2)] del: step.simps)
    also have "\<dots> = (prvMonitorTask_check (?s2\<lparr>monitor := Checking\<rparr>))\<lparr>monitor := Idle\<rparr>"
      by (rule consume_when_checking) simp
    finally show ?thesis by (simp only: check_ignores_monitor)
  qed
  show ?thesis
    using between by (simp only: together check_then_idle count) simp
qed

theorem requests_conflate_witness:
  "ulStatusCheckCount main_integer = 0
   \<and> monitor main_integer = Idle
   \<and> ulStatusCheckCount
         (run [TimerExpiry, KeyPress mainSTATUS_KEY, MonitorStep, MonitorStep, MonitorStep]
            main_integer) = 1
   \<and> xPerformStatusCheck
         (run [TimerExpiry, KeyPress mainSTATUS_KEY, MonitorStep, MonitorStep, MonitorStep]
            main_integer) = pdFALSE
   \<and> monitor
         (run [TimerExpiry, KeyPress mainSTATUS_KEY, MonitorStep, MonitorStep, MonitorStep]
            main_integer) = Idle
   \<and> run [TimerExpiry, MonitorStep, KeyPress mainSTATUS_KEY, MonitorStep, MonitorStep]
         main_integer
       = run [TimerExpiry, KeyPress mainSTATUS_KEY, MonitorStep, MonitorStep, MonitorStep]
         main_integer"
proof -
  have lists: "replicate (Suc (Suc (Suc 0))) MonitorStep = [MonitorStep, MonitorStep, MonitorStep]"
    "replicate (Suc (Suc 0)) MonitorStep = [MonitorStep, MonitorStep]"
    by simp_all
  have "TimerExpiry = TimerExpiry \<or> TimerExpiry = KeyPress mainSTATUS_KEY"
    and "KeyPress mainSTATUS_KEY = TimerExpiry \<or> KeyPress mainSTATUS_KEY = KeyPress mainSTATUS_KEY"
    by simp_all
  from requests_conflate [OF this, of "Suc 0" main_integer]
  show ?thesis
    by (simp only: lists main_integer_fields) simp
qed

end
